theory Spec2Isabelle
  imports Complex_Main "HOL-Library.Sublist"
begin

section \<open>Python strings and values\<close>

text \<open>
  A Python \<^verbatim>\<open>str\<close> is a sequence of Unicode code points. It is modelled as a list of
  integers, one per code point (what \<^verbatim>\<open>ord\<close> returns), so that slicing, iteration and \<^verbatim>\<open>len\<close> count what
  Python counts. \<open>str\<close> turns an Isabelle string literal into such a list.
\<close>

type_synonym pystr = "int list"

definition str :: "string \<Rightarrow> pystr" where
  "str s = map of_char s"

text \<open>
  The values \<^verbatim>\<open>json.loads\<close> produces: \<^verbatim>\<open>None\<close>, \<^verbatim>\<open>bool\<close>, \<^verbatim>\<open>int\<close>, \<^verbatim>\<open>float\<close>,
  \<^verbatim>\<open>str\<close>, \<^verbatim>\<open>list\<close> and \<^verbatim>\<open>dict\<close>. A float read from a literal is kept as the decimal
  number \<open>m * 10 ^ e\<close> it was written as (\<open>JFloat m e\<close>); \<^verbatim>\<open>NaN\<close> and the two infinities
  have constructors of their own. A dict is an association list in insertion order with
  distinct keys.
\<close>

datatype json =
    JNull
  | JBool bool
  | JInt int
  | JFloat int int
  | JNaN
  | JInf bool
  | JString pystr
  | JArray "json list"
  | JObject "(pystr \<times> json) list"

datatype py_error = TypeError | AttributeError | RuntimeError

section \<open>Keyword risk score\<close>

text \<open>
  \<^verbatim>\<open>RISK_KEYWORDS\<close>, in the insertion order that \<^verbatim>\<open>.items()\<close> iterates.
\<close>

definition RISK_KEYWORDS :: "(pystr \<times> pystr list) list" where
  "RISK_KEYWORDS =
     [(str ''high'', [str ''penalty'', str ''indemnity'', str ''unilateral'',
                      str ''terminate without'', str ''liquidated damages'']),
      (str ''medium'', [str ''auto-renew'', str ''renewal'', str ''notice period'',
                        str ''arbitration'', str ''governing law'']),
      (str ''low'', [str ''confidential'', str ''nda'', str ''non-disclosure''])]"

text \<open>
  \<^verbatim>\<open>str.lower()\<close>. The letters A to Z are mapped to a to z. Two code points outside ASCII
  have a lower-case form that contains an ASCII letter: U+212A (Kelvin sign) becomes \<open>k\<close> and
  U+0130 becomes \<open>i\<close> followed by U+0307. Every other code point outside ASCII has a
  lower-case form outside ASCII and is left as it is here: the only use of the lower-cased text
  is the search for the ASCII keywords above, which cannot tell the two apart.
\<close>

definition lower_char :: "int \<Rightarrow> pystr" where
  "lower_char c =
     (if 65 \<le> c \<and> c \<le> 90 then [c + 32]
      else if c = 8490 then [107]
      else if c = 304 then [105, 775]
      else [c])"

definition lower :: "pystr \<Rightarrow> pystr" where
  "lower s = concat (map lower_char s)"

text \<open>\<^verbatim>\<open>w in t\<close> on strings: \<open>w\<close> occurs in \<open>t\<close> as a contiguous substring.\<close>

fun py_in :: "pystr \<Rightarrow> pystr \<Rightarrow> bool" where
  "py_in w [] = (w = [])"
| "py_in w (c # cs) = (prefix w (c # cs) \<or> py_in w cs)"

definition level_weight :: "pystr \<Rightarrow> int" where
  "level_weight level =
     (if level = str ''high'' then 30
      else if level = str ''medium'' then 15
      else 5)"

text \<open>The inner loop over the words of one level, and the outer loop over the levels.\<close>

fun score_words :: "pystr \<Rightarrow> pystr \<Rightarrow> pystr list \<Rightarrow> int \<Rightarrow> int" where
  "score_words t level [] score = score"
| "score_words t level (w # ws) score =
     score_words t level ws (if py_in w t then score + level_weight level else score)"

fun score_levels :: "pystr \<Rightarrow> (pystr \<times> pystr list) list \<Rightarrow> int \<Rightarrow> int" where
  "score_levels t [] score = score"
| "score_levels t ((level, words) # rest) score =
     score_levels t rest (score_words t level words score)"

definition keyword_risk_score :: "pystr \<Rightarrow> int" where
  "keyword_risk_score text_in =
     (let t = lower text_in in min 100 (score_levels t RISK_KEYWORDS 0))"

definition map_score_to_bucket :: "int \<Rightarrow> pystr" where
  "map_score_to_bucket score =
     (if score \<ge> 60 then str ''High''
      else if score \<ge> 30 then str ''Medium''
      else str ''Low'')"

text \<open>The keywords of all levels, and the weight each one carries.\<close>

definition weighted_keywords :: "(pystr \<times> int) list" where
  "weighted_keywords =
     concat (map (\<lambda>(level, words). map (\<lambda>w. (w, level_weight level)) words) RISK_KEYWORDS)"

section \<open>The JSON decoder\<close>

text \<open>
  \<^verbatim>\<open>json.loads\<close> belongs to the Python library, not to the repository. It is modelled by a
  decoder for the grammar the library accepts on a \<^verbatim>\<open>str\<close>: the JSON grammar with strict
  strings, and the literals \<^verbatim>\<open>NaN\<close>, \<^verbatim>\<open>Infinity\<close> and \<^verbatim>\<open>-Infinity\<close>. A decoding error (the
  exception \<^verbatim>\<open>JSONDecodeError\<close>) is the value \<open>None\<close>. The limits of the interpreter
  (recursion depth, the length of integer literals) are not modelled.
\<close>

definition is_ws :: "int \<Rightarrow> bool" where
  "is_ws c = (c = 32 \<or> c = 9 \<or> c = 10 \<or> c = 13)"

definition skip_ws :: "pystr \<Rightarrow> pystr" where
  "skip_ws s = dropWhile is_ws s"

definition is_digit :: "int \<Rightarrow> bool" where
  "is_digit c = (48 \<le> c \<and> c \<le> 57)"

text \<open>
  String literals: \<open>scanstring\<close> reads the text after the opening quote and returns the
  decoded string and the text after the closing quote. A \<^verbatim>\<open>\uXXXX\<close> escape that names a high
  surrogate and is followed by one that names a low surrogate is decoded as one code point.
\<close>

definition hex_val :: "int \<Rightarrow> int option" where
  "hex_val c =
     (if 48 \<le> c \<and> c \<le> 57 then Some (c - 48)
      else if 97 \<le> c \<and> c \<le> 102 then Some (c - 87)
      else if 65 \<le> c \<and> c \<le> 70 then Some (c - 55)
      else None)"

fun hex4 :: "pystr \<Rightarrow> int option" where
  "hex4 [a, b, c, d] =
     (case (hex_val a, hex_val b, hex_val c, hex_val d) of
        (Some x, Some y, Some z, Some w) \<Rightarrow> Some (((x * 16 + y) * 16 + z) * 16 + w)
      | _ \<Rightarrow> None)"
| "hex4 _ = None"

definition simple_escape :: "int \<Rightarrow> int option" where
  "simple_escape e =
     (if e = 34 then Some 34
      else if e = 92 then Some 92
      else if e = 47 then Some 47
      else if e = 98 then Some 8
      else if e = 102 then Some 12
      else if e = 110 then Some 10
      else if e = 114 then Some 13
      else if e = 116 then Some 9
      else None)"

definition low_surrogate_after :: "pystr \<Rightarrow> int option" where
  "low_surrogate_after r =
     (if take 2 r = [92, 117] then
        (case hex4 (take 4 (drop 2 r)) of
           Some u2 \<Rightarrow> if 56320 \<le> u2 \<and> u2 \<le> 57343 then Some u2 else None
         | None \<Rightarrow> None)
      else None)"

definition cons_result :: "int \<Rightarrow> (pystr \<times> pystr) option \<Rightarrow> (pystr \<times> pystr) option" where
  "cons_result c res = (case res of None \<Rightarrow> None | Some (t, r) \<Rightarrow> Some (c # t, r))"

fun scanstring :: "pystr \<Rightarrow> (pystr \<times> pystr) option" where
  "scanstring [] = None"
| "scanstring (c # cs) =
     (if c = 34 then Some ([], cs)
      else if c = 92 then
        (case cs of
           [] \<Rightarrow> None
         | e # es \<Rightarrow>
             if e = 117 then
               (case hex4 (take 4 es) of
                  None \<Rightarrow> None
                | Some u \<Rightarrow>
                    (case (if 55296 \<le> u \<and> u \<le> 56319 then low_surrogate_after (drop 4 es) else None) of
                       Some u2 \<Rightarrow>
                         cons_result (65536 + ((u - 55296) * 1024 + (u2 - 56320)))
                           (scanstring (drop 10 es))
                     | None \<Rightarrow> cons_result u (scanstring (drop 4 es))))
             else
               (case simple_escape e of
                  None \<Rightarrow> None
                | Some ch \<Rightarrow> cons_result ch (scanstring es)))
      else if c \<le> 31 then None
      else cons_result c (scanstring cs))"

text \<open>
  Number literals: an optional minus sign, an integer part without leading zeros, an optional
  fraction and an optional exponent. The longest such prefix is the literal; a fraction or an
  exponent makes it a float.
\<close>

fun digits_val :: "pystr \<Rightarrow> int \<Rightarrow> int" where
  "digits_val [] acc = acc"
| "digits_val (d # ds) acc = digits_val ds (acc * 10 + (d - 48))"

definition match_number :: "pystr \<Rightarrow> (json \<times> pystr) option" where
  "match_number s =
     (let neg = (s \<noteq> [] \<and> hd s = 45);
          s1 = (if neg then tl s else s);
          sgn = (if neg then - 1 else 1 :: int)
      in case s1 of
           [] \<Rightarrow> None
         | d # ds \<Rightarrow>
             if \<not> is_digit d then None
             else
               let ip = (if d = 48 then [d] else d # takeWhile is_digit ds);
                   r1 = (if d = 48 then ds else dropWhile is_digit ds);
                   has_frac = (r1 \<noteq> [] \<and> hd r1 = 46 \<and> tl r1 \<noteq> [] \<and> is_digit (hd (tl r1)));
                   fp = (if has_frac then takeWhile is_digit (tl r1) else []);
                   r2 = (if has_frac then dropWhile is_digit (tl r1) else r1);
                   r3 = (if r2 \<noteq> [] \<and> (hd r2 = 101 \<or> hd r2 = 69) then tl r2 else []);
                   esgn = (if r3 \<noteq> [] \<and> hd r3 = 45 then - 1 else 1 :: int);
                   r4 = (if r3 \<noteq> [] \<and> (hd r3 = 45 \<or> hd r3 = 43) then tl r3 else r3);
                   has_exp = (r4 \<noteq> [] \<and> is_digit (hd r4));
                   ep = (if has_exp then takeWhile is_digit r4 else []);
                   r5 = (if has_exp then dropWhile is_digit r4 else r2)
               in if has_frac \<or> has_exp
                  then Some (JFloat (sgn * digits_val (ip @ fp) 0)
                               (esgn * digits_val ep 0 - int (length fp)), r5)
                  else Some (JInt (sgn * digits_val ip 0), r5))"

text \<open>
  A dict is built from the members in the order they are read: a repeated key keeps its first
  position and takes the last value.
\<close>

fun dict_set :: "(pystr \<times> json) list \<Rightarrow> pystr \<Rightarrow> json \<Rightarrow> (pystr \<times> json) list" where
  "dict_set [] k v = [(k, v)]"
| "dict_set ((k', v') # d) k v = (if k' = k then (k, v) # d else (k', v') # dict_set d k v)"

fun dict_of_pairs :: "(pystr \<times> json) list \<Rightarrow> (pystr \<times> json) list \<Rightarrow> (pystr \<times> json) list" where
  "dict_of_pairs d [] = d"
| "dict_of_pairs d ((k, v) # ps) = dict_of_pairs (dict_set d k v) ps"

text \<open>
  \<open>scan_once\<close> decodes one value at the start of the text and returns it with the text that
  follows; \<open>parse_items\<close> reads the elements of an array up to its closing bracket and
  \<open>parse_members\<close> the members of an object up to its closing brace. The tests on the length
  of the remaining text make the recursion well-founded; they never fail, since every value read
  consumes at least one character.
\<close>

function scan_once :: "pystr \<Rightarrow> (json \<times> pystr) option"
  and parse_items :: "pystr \<Rightarrow> (json list \<times> pystr) option"
  and parse_members :: "pystr \<Rightarrow> ((pystr \<times> json) list \<times> pystr) option"
where
  "scan_once [] = None"
| "scan_once (c # cs) =
     (if c = 34 then
        (case scanstring cs of None \<Rightarrow> None | Some (t, r) \<Rightarrow> Some (JString t, r))
      else if c = 123 then
        (case skip_ws cs of
           [] \<Rightarrow> None
         | c1 # r1 \<Rightarrow>
             if c1 = 125 then Some (JObject [], r1)
             else (case parse_members (c1 # r1) of
                     None \<Rightarrow> None
                   | Some (ps, r) \<Rightarrow> Some (JObject (dict_of_pairs [] ps), r)))
      else if c = 91 then
        (case skip_ws cs of
           [] \<Rightarrow> None
         | c1 # r1 \<Rightarrow>
             if c1 = 93 then Some (JArray [], r1)
             else (case parse_items (c1 # r1) of
                     None \<Rightarrow> None
                   | Some (vs, r) \<Rightarrow> Some (JArray vs, r)))
      else if c = 110 \<and> prefix (str ''null'') (c # cs) then Some (JNull, drop 3 cs)
      else if c = 116 \<and> prefix (str ''true'') (c # cs) then Some (JBool True, drop 3 cs)
      else if c = 102 \<and> prefix (str ''false'') (c # cs) then Some (JBool False, drop 4 cs)
      else if c = 78 \<and> prefix (str ''NaN'') (c # cs) then Some (JNaN, drop 2 cs)
      else if c = 73 \<and> prefix (str ''Infinity'') (c # cs) then Some (JInf True, drop 7 cs)
      else if c = 45 \<and> prefix (str ''-Infinity'') (c # cs) then Some (JInf False, drop 8 cs)
      else match_number (c # cs))"
| "parse_items [] = None"
| "parse_items (c # cs) =
     (case scan_once (c # cs) of
        None \<Rightarrow> None
      | Some (v, r) \<Rightarrow>
          if \<not> length r < length (c # cs) then None
          else
            (case skip_ws r of
               [] \<Rightarrow> None
             | c1 # r1 \<Rightarrow>
                 if c1 = 93 then Some ([v], r1)
                 else if c1 = 44 then
                   (case parse_items (skip_ws r1) of
                      None \<Rightarrow> None
                    | Some (vs, r2) \<Rightarrow> Some (v # vs, r2))
                 else None))"
| "parse_members [] = None"
| "parse_members (c # cs) =
     (if c \<noteq> 34 then None
      else
        (case scanstring cs of
           None \<Rightarrow> None
         | Some (k, r0) \<Rightarrow>
             (case skip_ws r0 of
                [] \<Rightarrow> None
              | c0 # r1 \<Rightarrow>
                  if c0 \<noteq> 58 \<or> \<not> length r1 < length (c # cs) then None
                  else
                    (case scan_once (skip_ws r1) of
                       None \<Rightarrow> None
                     | Some (v, r2) \<Rightarrow>
                         if \<not> length r2 < length (c # cs) then None
                         else
                           (case skip_ws r2 of
                              [] \<Rightarrow> None
                            | c2 # r3 \<Rightarrow>
                                if c2 = 125 then Some ([(k, v)], r3)
                                else if c2 = 44 then
                                  (case parse_members (skip_ws r3) of
                                     None \<Rightarrow> None
                                   | Some (ps, r4) \<Rightarrow> Some ((k, v) # ps, r4))
                                else None)))))"
  by pat_completeness auto
termination
proof (relation "measure (\<lambda>x. case x of
      Inl s \<Rightarrow> 2 * length s
    | Inr (Inl s) \<Rightarrow> 2 * length s + 1
    | Inr (Inr s) \<Rightarrow> 2 * length s + 1)", goal_cases)
  case 1
  then show ?case by simp
next
  case (2 c cs x21 x22)
  then show ?case
    using length_dropWhile_le [of is_ws cs] by (simp add: skip_ws_def)
next
  case (3 c cs x21 x22)
  then show ?case
    using length_dropWhile_le [of is_ws cs] by (simp add: skip_ws_def)
next
  case (4 c cs)
  then show ?case by simp
next
  case (5 c cs x2 x1 x2a x21 x22)
  then show ?case
    using length_dropWhile_le [of is_ws x2a] length_dropWhile_le [of is_ws x22]
    by (simp add: skip_ws_def)
next
  case (6 c cs x2 x1 x2a x21 x22)
  then show ?case
    using length_dropWhile_le [of is_ws x22] by (simp add: skip_ws_def)
next
  case (7 c cs x2 x1 x2a x21 x22 x2b x1a x2c x21a x22a)
  then show ?case
    using length_dropWhile_le [of is_ws x2c] length_dropWhile_le [of is_ws x22a]
    by (simp add: skip_ws_def)
qed

text \<open>
  \<^verbatim>\<open>json.loads(s)\<close>: white space, one value, white space, and nothing else.
\<close>

definition json_loads :: "pystr \<Rightarrow> json option" where
  "json_loads s =
     (case scan_once (skip_ws s) of
        None \<Rightarrow> None
      | Some (v, r) \<Rightarrow> if skip_ws r = [] then Some v else None)"

section \<open>Recovery of a JSON object from the assistant content\<close>

text \<open>
  \<^verbatim>\<open>re.sub(r"```(?:json)?\n", "", s, flags=re.IGNORECASE)\<close>: \<open>fence_len s\<close> is the length of
  the match of the pattern at the start of \<open>s\<close>, or 0 when it does not match there. Under
  \<^verbatim>\<open>IGNORECASE\<close> the letter \<open>s\<close> of the pattern also matches U+017F. \<open>re_sub_fence\<close> removes
  the matches from left to right.
\<close>

definition ticks :: pystr where
  "ticks = str ''```''"

definition json_hint :: "pystr \<Rightarrow> bool" where
  "json_hint w =
     (case w of
        [a, b, c, d] \<Rightarrow>
          (a = 106 \<or> a = 74) \<and> (b = 115 \<or> b = 83 \<or> b = 383)
          \<and> (c = 111 \<or> c = 79) \<and> (d = 110 \<or> d = 78)
      | _ \<Rightarrow> False)"

definition fence_len :: "pystr \<Rightarrow> nat" where
  "fence_len s =
     (if prefix ticks s then
        (let r = drop 3 s in
         if json_hint (take 4 r) \<and> take 1 (drop 4 r) = [10] then 8
         else if take 1 r = [10] then 4
         else 0)
      else 0)"

function re_sub_fence :: "pystr \<Rightarrow> pystr" where
  "re_sub_fence [] = []"
| "re_sub_fence (c # cs) =
     (if 0 < fence_len (c # cs) then re_sub_fence (drop (fence_len (c # cs)) (c # cs))
      else c # re_sub_fence cs)"
  by pat_completeness auto
termination
  by (relation "measure length") auto

text \<open>
  \<^verbatim>\<open>s_clean.replace("```", "")\<close>.
\<close>

fun replace_ticks :: "pystr \<Rightarrow> pystr" where
  "replace_ticks [] = []"
| "replace_ticks (c # cs) =
     (if prefix ticks (c # cs) then replace_ticks (drop 2 cs) else c # replace_ticks cs)"

text \<open>
  The brace scan of \<^verbatim>\<open>_extract_json_from_text\<close>. \<open>start_idxs\<close> are the positions that
  \<^verbatim>\<open>re.finditer(r"\{", s_clean)\<close> finds. \<open>inner_scan\<close> is the loop over \<open>i\<close> for one start: it
  returns \<open>Some v\<close> when the function returns \<open>v\<close> from inside the loop, and \<open>None\<close> when the
  loop ends, by \<^verbatim>\<open>break\<close> or at the end of the text. \<open>try_starts\<close> is the loop over the starts;
  Python's \<^verbatim>\<open>None\<close> is \<open>JNull\<close>.
\<close>

definition start_idxs :: "pystr \<Rightarrow> nat list" where
  "start_idxs s = filter (\<lambda>i. s ! i = 123) [0..<length s]"

function inner_scan :: "pystr \<Rightarrow> nat \<Rightarrow> int \<Rightarrow> nat \<Rightarrow> json option" where
  "inner_scan s start depth i =
     (if i < length s then
        (if s ! i = 123 then inner_scan s start (depth + 1) (Suc i)
         else if s ! i = 125 then
           (if depth - 1 = 0 then json_loads (take (Suc i - start) (drop start s))
            else inner_scan s start (depth - 1) (Suc i))
         else inner_scan s start depth (Suc i))
      else None)"
  by pat_completeness auto
termination
  by (relation "measure (\<lambda>(s, start, depth, i). length s - i)") auto

fun try_starts :: "pystr \<Rightarrow> nat list \<Rightarrow> json" where
  "try_starts s [] = JNull"
| "try_starts s (start # rest) =
     (case inner_scan s start 0 start of
        Some v \<Rightarrow> v
      | None \<Rightarrow> try_starts s rest)"

definition extract_json_from_text :: "pystr \<Rightarrow> json" where
  "extract_json_from_text s =
     (if s = [] then JNull
      else
        let s_clean = replace_ticks (re_sub_fence s)
        in try_starts s_clean (start_idxs s_clean))"

text \<open>
  The value bound to \<^verbatim>\<open>parsed\<close> in \<^verbatim>\<open>analyze_contract\<close> (lines 84 to 94).
\<close>

definition parsed_of :: "pystr \<Rightarrow> json" where
  "parsed_of content =
     (case json_loads content of
        Some v \<Rightarrow> v
      | None \<Rightarrow>
          (let salvaged = extract_json_from_text content
           in if salvaged \<noteq> JNull then salvaged
              else JObject [(str ''raw'', JString content)]))"

text \<open>
  Truth values, \<^verbatim>\<open>dict.get\<close> and iteration, as \<^verbatim>\<open>analyze_contract\<close> uses them on decoded
  values. A float literal is false when the double nearest to it is zero, that is, when its
  absolute value is at most \<open>2 ^ - 1075\<close>. Iterating a str gives its characters, iterating a
  dict its keys; the other values are not iterable.
\<close>

definition float_nonzero :: "int \<Rightarrow> int \<Rightarrow> bool" where
  "float_nonzero m e = (m \<noteq> 0 \<and> (0 \<le> e \<or> 10 ^ nat (- e) < \<bar>m\<bar> * 2 ^ 1075))"

fun truthy :: "json \<Rightarrow> bool" where
  "truthy JNull = False"
| "truthy (JBool b) = b"
| "truthy (JInt i) = (i \<noteq> 0)"
| "truthy (JFloat m e) = float_nonzero m e"
| "truthy JNaN = True"
| "truthy (JInf b) = True"
| "truthy (JString s) = (s \<noteq> [])"
| "truthy (JArray xs) = (xs \<noteq> [])"
| "truthy (JObject d) = (d \<noteq> [])"

definition dict_get :: "(pystr \<times> json) list \<Rightarrow> pystr \<Rightarrow> json" where
  "dict_get d k = (case map_of d k of None \<Rightarrow> JNull | Some v \<Rightarrow> v)"

fun py_iter :: "json \<Rightarrow> py_error + json list" where
  "py_iter (JArray xs) = Inr xs"
| "py_iter (JString s) = Inr (map (\<lambda>c. JString [c]) s)"
| "py_iter (JObject d) = Inr (map (\<lambda>(k, v). JString k) d)"
| "py_iter v = Inl TypeError"

section \<open>Clause highlights and the composite risk\<close>

text \<open>
  The entries of \<^verbatim>\<open>clause_highlights\<close> (keys \<^verbatim>\<open>title\<close>, \<^verbatim>\<open>text\<close>, \<^verbatim>\<open>score\<close> and \<^verbatim>\<open>bucket\<close>)
  and the dict that \<^verbatim>\<open>analyze_contract\<close> returns.
\<close>

record clause_highlight =
  ch_title :: json
  ch_text :: pystr
  ch_score :: int
  ch_bucket :: pystr

record analysis =
  assistant_content :: pystr
  parsed :: json
  clause_highlights :: "clause_highlight list"
  composite_risk_score :: int
  composite_risk_bucket :: pystr

text \<open>
  One round of the loop over the clauses (lines 100 to 103): \<^verbatim>\<open>_keyword_risk_score(body)\<close>
  calls \<^verbatim>\<open>body.lower()\<close>, which raises \<^verbatim>\<open>AttributeError\<close> unless \<open>body\<close> is a str.
\<close>

definition clause_of :: "json \<Rightarrow> py_error + clause_highlight" where
  "clause_of c =
     (let title = (case c of JObject d \<Rightarrow> dict_get d (str ''title'') | _ \<Rightarrow> JNull);
          body = (case c of JObject d \<Rightarrow> dict_get d (str ''text'')
                          | JString t \<Rightarrow> c
                          | _ \<Rightarrow> JString [])
      in case body of
           JString t \<Rightarrow>
             (let s = keyword_risk_score t
              in Inr \<lparr>ch_title = title, ch_text = t, ch_score = s,
                      ch_bucket = map_score_to_bucket s\<rparr>)
         | _ \<Rightarrow> Inl AttributeError)"

fun clauses_loop :: "json list \<Rightarrow> clause_highlight list \<Rightarrow> py_error + clause_highlight list" where
  "clauses_loop [] acc = Inr acc"
| "clauses_loop (c # cs) acc =
     (case clause_of c of
        Inl e \<Rightarrow> Inl e
      | Inr h \<Rightarrow> clauses_loop cs (acc @ [h]))"

text \<open>
  The fallback branch (lines 106 and 107), and the choice between the two branches.
\<close>

definition fallback_highlights :: "pystr \<Rightarrow> clause_highlight list" where
  "fallback_highlights text_in =
     (let s = keyword_risk_score text_in
      in [\<lparr>ch_title = JNull, ch_text = take 1000 text_in, ch_score = s,
           ch_bucket = map_score_to_bucket s\<rparr>])"

definition build_clause_highlights :: "json \<Rightarrow> pystr \<Rightarrow> py_error + clause_highlight list" where
  "build_clause_highlights p text_in =
     (case p of
        JObject d \<Rightarrow>
          if truthy (dict_get d (str ''clauses''))
          then (case py_iter (dict_get d (str ''clauses'')) of
                  Inl e \<Rightarrow> Inl e
                | Inr cs \<Rightarrow> clauses_loop cs [])
          else Inr (fallback_highlights text_in)
      | _ \<Rightarrow> Inr (fallback_highlights text_in))"

text \<open>
  Line 110: \<^verbatim>\<open>int(sum(...) / max(1, len(...)))\<close>. The quotient is taken exactly; \<^verbatim>\<open>int\<close>
  truncates towards zero. (Python divides in double precision. For scores between 0 and 100
  and fewer than \<open>2 ^ 46\<close> clauses the double nearest to the quotient truncates to the same
  integer.)
\<close>

definition py_int :: "rat \<Rightarrow> int" where
  "py_int q = (if 0 \<le> q then \<lfloor>q\<rfloor> else \<lceil>q\<rceil>)"

definition avg_score_of :: "int list \<Rightarrow> int" where
  "avg_score_of scores =
     py_int (of_int (sum_list scores) / of_int (max 1 (int (length scores))))"

text \<open>
  \<^verbatim>\<open>analyze_contract\<close>. The call of the language model is its first parameter; an exception
  it raises is passed on.
\<close>

definition analyze_contract ::
  "(pystr \<Rightarrow> pystr list \<Rightarrow> pystr \<Rightarrow> py_error + pystr)
     \<Rightarrow> pystr \<Rightarrow> pystr list option \<Rightarrow> pystr \<Rightarrow> py_error + analysis" where
  "analyze_contract extract_contract_fields text_in system_prompts model =
     (case extract_contract_fields text_in
             (case system_prompts of None \<Rightarrow> [] | Some ps \<Rightarrow> ps) model of
        Inl e \<Rightarrow> Inl e
      | Inr content \<Rightarrow>
          (let p = parsed_of content
           in case build_clause_highlights p text_in of
                Inl e \<Rightarrow> Inl e
              | Inr hs \<Rightarrow>
                  (let avg_score = avg_score_of (map ch_score hs)
                   in Inr \<lparr>assistant_content = content, parsed = p, clause_highlights = hs,
                           composite_risk_score = avg_score,
                           composite_risk_bucket = map_score_to_bucket avg_score\<rparr>)))"

section \<open>Properties of the score\<close>

lemma py_in_iff_sublist: "py_in w t \<longleftrightarrow> sublist w t"
  by (induction t) (auto simp: sublist_Cons_right)

lemma score_words_sum:
  "score_words t level ws score =
     score + sum_list (map (\<lambda>w. level_weight level) (filter (\<lambda>w. py_in w t) ws))"
  by (induction ws arbitrary: score) auto

lemma score_levels_sum:
  "score_levels t tbl score =
     score + sum_list (map snd (filter (\<lambda>(w, k). py_in w t)
        (concat (map (\<lambda>(level, words). map (\<lambda>w. (w, level_weight level)) words) tbl))))"
proof (induction tbl arbitrary: score)
  case Nil
  then show ?case by simp
next
  case (Cons lw tbl)
  obtain level ws where lw: "lw = (level, ws)" by (cases lw)
  have "map snd (filter (\<lambda>(w, k). py_in w t) (map (\<lambda>w. (w, level_weight level)) ws))
        = map (\<lambda>w. level_weight level) (filter (\<lambda>w. py_in w t) ws)"
    by (induction ws) auto
  then show ?case
    using Cons.IH by (simp add: lw score_words_sum)
qed

lemma keyword_risk_score_presence:
  "keyword_risk_score t =
     min 100 (sum_list (map snd (filter (\<lambda>(w, k). py_in w (lower t)) weighted_keywords)))"
  by (simp add: keyword_risk_score_def weighted_keywords_def score_levels_sum)

lemma filter_present_cong:
  assumes "\<forall>w \<in> fst ` set kws. py_in w a = py_in w b"
  shows "filter (\<lambda>(w, k). py_in w a) kws = filter (\<lambda>(w, k :: int). py_in w b) kws"
  using assms by (induction kws) auto

lemma lower_append: "lower (a @ b) = lower a @ lower b"
  by (simp add: lower_def)

lemma py_in_append_left: "py_in w a \<Longrightarrow> py_in w (a @ b)"
  unfolding py_in_iff_sublist by (metis sublist_appendI append.right_neutral append_assoc sublist_def)

text \<open>
  C7. The score depends on which keywords are present, not on how often: it is the sum, capped
  at 100, of the weight of every keyword of the table that occurs in the lower-cased text, each
  counted once. So \<open>t\<close> and \<open>t + " " + t\<close> have the same score whenever every keyword found in
  the repeated text is already found in \<open>t\<close>.
\<close>

theorem keyword_risk_score_repetition:
  "keyword_risk_score t =
     min 100 (sum_list (map snd (filter (\<lambda>(w, k). py_in w (lower t)) weighted_keywords)))
   \<and> ((\<forall>w \<in> fst ` set weighted_keywords.
          py_in w (lower (t @ str '' '' @ t)) \<longrightarrow> py_in w (lower t))
        \<longrightarrow> keyword_risk_score (t @ str '' '' @ t) = keyword_risk_score t)"
proof (intro conjI impI)
  show "keyword_risk_score t =
     min 100 (sum_list (map snd (filter (\<lambda>(w, k). py_in w (lower t)) weighted_keywords)))"
    by (rule keyword_risk_score_presence)
next
  assume new: "\<forall>w \<in> fst ` set weighted_keywords.
          py_in w (lower (t @ str '' '' @ t)) \<longrightarrow> py_in w (lower t)"
  have "\<forall>w \<in> fst ` set weighted_keywords.
          py_in w (lower (t @ str '' '' @ t)) = py_in w (lower t)"
    using new by (auto simp: lower_append intro: py_in_append_left)
  then have "filter (\<lambda>(w, k). py_in w (lower (t @ str '' '' @ t))) weighted_keywords
             = filter (\<lambda>(w, k). py_in w (lower t)) weighted_keywords"
    by (rule filter_present_cong)
  then show "keyword_risk_score (t @ str '' '' @ t) = keyword_risk_score t"
    by (simp only: keyword_risk_score_presence)
qed

lemma str_simps: "str [] = []" "str (c # cs) = of_char c # str cs"
  by (simp_all add: str_def)

lemma weighted_keywords_table:
  "weighted_keywords =
    [(str ''penalty'', 30), (str ''indemnity'', 30), (str ''unilateral'', 30),
     (str ''terminate without'', 30), (str ''liquidated damages'', 30),
     (str ''auto-renew'', 15), (str ''renewal'', 15), (str ''notice period'', 15),
     (str ''arbitration'', 15), (str ''governing law'', 15),
     (str ''confidential'', 5), (str ''nda'', 5), (str ''non-disclosure'', 5)]"
  by (simp add: weighted_keywords_def RISK_KEYWORDS_def level_weight_def str_simps)

theorem keyword_risk_score_repetition_witness:
  "keyword_risk_score (str ''Penalty nda'' @ str '' '' @ str ''Penalty nda'')
     = keyword_risk_score (str ''Penalty nda'')
   \<and> keyword_risk_score (str ''Penalty nda'') = 35"
proof -
  have l1: "lower (str ''Penalty nda'') = str ''penalty nda''"
    by (simp add: str_simps lower_def lower_char_def)
  have l2: "lower (str ''Penalty nda'' @ str '' '' @ str ''Penalty nda'')
              = str ''penalty nda penalty nda''"
    by (simp add: str_simps lower_def lower_char_def)
  have h: "\<forall>w \<in> fst ` set weighted_keywords.
          py_in w (lower (str ''Penalty nda'' @ str '' '' @ str ''Penalty nda''))
          \<longrightarrow> py_in w (lower (str ''Penalty nda''))"
    unfolding l1 l2 by (simp add: weighted_keywords_table str_simps)
  have v: "keyword_risk_score (str ''Penalty nda'') = 35"
    unfolding keyword_risk_score_presence l1 by (simp add: weighted_keywords_table str_simps)
  have r: "keyword_risk_score (str ''Penalty nda'' @ str '' '' @ str ''Penalty nda'')
             = keyword_risk_score (str ''Penalty nda'')"
    by (rule keyword_risk_score_repetition [THEN conjunct2, THEN mp, OF h])
  from r v show ?thesis by (rule conjI)
qed

section \<open>Properties of the bucket\<close>

text \<open>
  C8. The bucket is a step function of the score: High from 60 on, Medium from 30 to 59,
  Low below 30; the four scores next to the two thresholds fall on the stated sides.
\<close>

theorem map_score_to_bucket_steps:
  "(60 \<le> score \<longrightarrow> map_score_to_bucket score = str ''High'')
   \<and> (30 \<le> score \<and> score < 60 \<longrightarrow> map_score_to_bucket score = str ''Medium'')
   \<and> (score < 30 \<longrightarrow> map_score_to_bucket score = str ''Low'')
   \<and> map_score_to_bucket 29 = str ''Low''
   \<and> map_score_to_bucket 30 = str ''Medium''
   \<and> map_score_to_bucket 59 = str ''Medium''
   \<and> map_score_to_bucket 60 = str ''High''"
  by (simp add: map_score_to_bucket_def)

theorem map_score_to_bucket_steps_witness:
  "map_score_to_bucket 75 = str ''High''
   \<and> map_score_to_bucket 45 = str ''Medium''
   \<and> map_score_to_bucket 10 = str ''Low''"
  using map_score_to_bucket_steps [of 75] map_score_to_bucket_steps [of 45]
    map_score_to_bucket_steps [of 10]
  by simp

end
